theory Spec2Isabelle
  imports Main "HOL-Library.AList"
begin

section \<open>Tokens, places and arcs (package petrinet)\<close>

text \<open>
  The payload of a token is a Go \<^verbatim>\<open>interface{}\<close>; the values the engine itself creates or
  inspects are nil, strings (the resource tag), integers and string-keyed mappings (the
  context payload).
\<close>

datatype data = DNil | DStr string | DInt int | DMap "(string \<times> data) list"

text \<open>
  \<^verbatim>\<open>type Token struct { ID string; Data interface{} }\<close>. The engine holds tokens through
  pointers and only moves them; a token pointer is represented by the token it points to.
\<close>

record Token =
  tID :: string
  Data :: data

text \<open>
  \<^verbatim>\<open>type Place struct { ID, Name string; Tokens []*Token; Capacity int; mu sync.Mutex }\<close>.
  A negative capacity means unlimited. Places are shared through pointers: a pointer is a
  reference into a store, and the nil pointer of an arc is \<open>None\<close>. Capacities, weights and
  counts are Go \<^verbatim>\<open>int\<close>s; they are modelled as unbounded integers, which describes the
  runs in which the sums of weights the engine forms stay within 64 bits.
\<close>

record Place =
  pID :: string
  pName :: string
  Tokens :: "Token list"
  Capacity :: int

type_synonym place_ref = nat
type_synonym store = "place_ref \<Rightarrow> Place"

record Arc =
  aPlace :: "place_ref option"
  Weight :: int

text \<open>
  Errors are values. \<open>ErrNotReady\<close> is the package's sentinel; the other constructors
  stand for the \<^verbatim>\<open>fmt.Errorf\<close> calls of the source, with the formatted arguments as fields.
\<close>

datatype error =
    ErrNotReady
  | ErrCtx
  | ErrUser string
  | ErrActionFailed string error
  | ErrTransition string error
  | ErrMaxIterations int
  | ErrAtCapacity string int
  | ErrMsg string

text \<open>A \<^verbatim>\<open>context.Context\<close> is observed only through being done or not.\<close>

type_synonym ctx = bool

record Transition =
  trID :: string
  trName :: string
  InputArcs :: "Arc list"
  OutputArcs :: "Arc list"
  Guard :: "(Token list \<Rightarrow> bool) option"
  Action :: "(ctx \<Rightarrow> Token list \<Rightarrow> error + Token list) option"

definition NewPlace :: "string \<Rightarrow> string \<Rightarrow> int \<Rightarrow> Place" where
  "NewPlace i n c = \<lparr>pID = i, pName = n, Tokens = [], Capacity = c\<rparr>"

definition NewTransition :: "string \<Rightarrow> string \<Rightarrow> Transition" where
  "NewTransition i n =
     \<lparr>trID = i, trName = n, InputArcs = [], OutputArcs = [], Guard = None, Action = None\<rparr>"

definition AddInputArc :: "place_ref option \<Rightarrow> int \<Rightarrow> Transition \<Rightarrow> Transition" where
  "AddInputArc p w t = t\<lparr>InputArcs := InputArcs t @ [\<lparr>aPlace = p, Weight = w\<rparr>]\<rparr>"

definition AddOutputArc :: "place_ref option \<Rightarrow> int \<Rightarrow> Transition \<Rightarrow> Transition" where
  "AddOutputArc p w t = t\<lparr>OutputArcs := OutputArcs t @ [\<lparr>aPlace = p, Weight = w\<rparr>]\<rparr>"

definition AddTokens :: "Token list \<Rightarrow> Place \<Rightarrow> error option \<times> Place" where
  "AddTokens tokens p =
     (if 0 \<le> Capacity p \<and> Capacity p < int (length (Tokens p)) + int (length tokens)
      then (Some (ErrAtCapacity (pName p) (Capacity p)), p)
      else (None, p\<lparr>Tokens := Tokens p @ tokens\<rparr>))"

definition TokenCount :: "Place \<Rightarrow> int" where
  "TokenCount p = int (length (Tokens p))"


text \<open>\<^verbatim>\<open>AddTokens\<close> applied to the place behind a pointer.\<close>

definition AddTokensAt :: "place_ref \<Rightarrow> Token list \<Rightarrow> store \<Rightarrow> error option \<times> store" where
  "AddTokensAt r tokens s = (case AddTokens tokens (s r) of (e, p) \<Rightarrow> (e, s(r := p)))"

section \<open>Transitions\<close>

text \<open>
  \<^verbatim>\<open>transition.go\<close> holds two revisions of the file; the model follows the later one, in
  which \<^verbatim>\<open>Fire\<close> locks the places and returns \<^verbatim>\<open>ErrNotReady\<close>.

  \<^verbatim>\<open>CanFire\<close>: the loop over the input arcs, returning false at the first arc whose place
  holds fewer tokens than the arc's weight. Reading the count of a nil place panics
  (\<open>None\<close>).
\<close>

fun CanFire_arcs :: "Arc list \<Rightarrow> store \<Rightarrow> bool option" where
  "CanFire_arcs [] s = Some True"
| "CanFire_arcs (arc # arcs) s =
     (case aPlace arc of
        None \<Rightarrow> None
      | Some p \<Rightarrow> if TokenCount (s p) < Weight arc then Some False else CanFire_arcs arcs s)"

definition CanFire :: "Transition \<Rightarrow> store \<Rightarrow> bool option" where
  "CanFire t s = CanFire_arcs (InputArcs t) s"

text \<open>
  \<^verbatim>\<open>Fire\<close>. The maps \<^verbatim>\<open>inputCounts\<close> and \<^verbatim>\<open>outputCounts\<close> are keyed by place pointer:
  \<open>arcPlaces\<close> lists the keys and \<open>sumWeights\<close> gives the value (0 for an absent key, as
  Go's map read does).
\<close>

definition arcPlaces :: "Arc list \<Rightarrow> place_ref list" where
  "arcPlaces arcs = remdups (map (\<lambda>a. the (aPlace a)) arcs)"

definition sumWeights :: "Arc list \<Rightarrow> place_ref \<Rightarrow> int" where
  "sumWeights arcs p = sum_list (map Weight (filter (\<lambda>a. aPlace a = Some p) arcs))"

text \<open>
  The consume loop. \<^verbatim>\<open>arc.Place.Tokens[:arc.Weight]\<close> panics on a negative weight; a
  weight above the length is only reached when another arc of the same transition has a
  negative weight, so the loop panics then in any case.
\<close>

fun consume ::
  "Arc list \<Rightarrow> store \<Rightarrow> Token list \<Rightarrow> (place_ref \<Rightarrow> Token list) \<Rightarrow>
     (store \<times> Token list \<times> (place_ref \<Rightarrow> Token list)) option" where
  "consume [] s inputTokens consumed = Some (s, inputTokens, consumed)"
| "consume (arc # arcs) s inputTokens consumed =
     (case aPlace arc of
        None \<Rightarrow> None
      | Some p \<Rightarrow>
          if Weight arc < 0 \<or> int (length (Tokens (s p))) < Weight arc then None
          else
            consume arcs
              (s(p := (s p)\<lparr>Tokens := drop (nat (Weight arc)) (Tokens (s p))\<rparr>))
              (inputTokens @ take (nat (Weight arc)) (Tokens (s p)))
              (consumed(p := consumed p @ take (nat (Weight arc)) (Tokens (s p)))))"

text \<open>
  The rollback loop \<^verbatim>\<open>for place, tokens := range consumedPerPlace\<close>, over the keys in the
  order the map iteration produced them.
\<close>

definition restore :: "place_ref list \<Rightarrow> (place_ref \<Rightarrow> Token list) \<Rightarrow> store \<Rightarrow> store" where
  "restore ps consumed s =
     fold (\<lambda>p s'. s'(p := (s' p)\<lparr>Tokens := consumed p @ Tokens (s' p)\<rparr>)) ps s"

text \<open>\<^verbatim>\<open>fmt.Sprintf("%d", n)\<close> for a non-negative \<open>n\<close>.\<close>

fun itoa :: "nat \<Rightarrow> string" where
  "itoa n =
     (if n < 10 then [''0123456789'' ! n]
      else itoa (n div 10) @ [''0123456789'' ! (n mod 10)])"

declare itoa.simps [simp del]

text \<open>
  The fill loop: while the output slice is shorter than \<^verbatim>\<open>totalNeeded\<close>, append a token
  named after the slice's current length.
\<close>

definition genTokens :: "nat \<Rightarrow> int \<Rightarrow> Token list" where
  "genTokens n totalNeeded =
     map (\<lambda>i. \<lparr>tID = ''gen-'' @ itoa i, Data = DNil\<rparr>) [n ..< nat totalNeeded]"

text \<open>
  The distribution loop. \<^verbatim>\<open>outputTokens[offset : offset+arc.Weight]\<close> panics on a negative
  weight; the slice has at least \<^verbatim>\<open>totalNeeded\<close> elements, so an upper bound beyond its
  length is only reached when another output arc has a negative weight, and the loop panics
  then in any case.
\<close>

fun distribute :: "Arc list \<Rightarrow> store \<Rightarrow> Token list \<Rightarrow> nat \<Rightarrow> store option" where
  "distribute [] s outputTokens offset = Some s"
| "distribute (arc # arcs) s outputTokens offset =
     (case aPlace arc of
        None \<Rightarrow> None
      | Some p \<Rightarrow>
          if Weight arc < 0 \<or> int (length outputTokens) < int offset + Weight arc then None
          else
            distribute arcs
              (s(p := (s p)\<lparr>Tokens := Tokens (s p) @
                   take (nat (Weight arc)) (drop offset outputTokens)\<rparr>))
              outputTokens (offset + nat (Weight arc)))"

text \<open>The two checks made before anything is consumed.\<close>

definition inputShort :: "Transition \<Rightarrow> store \<Rightarrow> bool" where
  "inputShort t s =
     list_ex (\<lambda>p. int (length (Tokens (s p))) < sumWeights (InputArcs t) p)
       (arcPlaces (InputArcs t))"

definition overflows :: "Transition \<Rightarrow> store \<Rightarrow> place_ref \<Rightarrow> bool" where
  "overflows t s p =
     (0 \<le> Capacity (s p) \<and>
      Capacity (s p) <
        int (length (Tokens (s p))) - sumWeights (InputArcs t) p + sumWeights (OutputArcs t) p)"

definition outputFull :: "Transition \<Rightarrow> store \<Rightarrow> bool" where
  "outputFull t s = list_ex (overflows t s) (arcPlaces (OutputArcs t))"

text \<open>
  The output slice: the action's tokens (none without an action), then the consumed tokens
  of every place that is both input and output, then, without an action, the consumed
  tokens of the other input places, then generated tokens up to \<^verbatim>\<open>totalNeeded\<close>. Go
  iterates its maps in an unspecified order; \<open>rank\<close> stands for the order of one call, the
  keys being visited by ascending rank.
\<close>

definition resourcePlaces :: "Transition \<Rightarrow> place_ref list" where
  "resourcePlaces t =
     filter (\<lambda>p. p \<in> set (arcPlaces (InputArcs t))) (arcPlaces (OutputArcs t))"

definition totalNeeded :: "Transition \<Rightarrow> int" where
  "totalNeeded t = sum_list (map (sumWeights (OutputArcs t)) (arcPlaces (OutputArcs t)))"

definition outputSlice ::
  "(place_ref \<Rightarrow> nat) \<Rightarrow> Transition \<Rightarrow> Token list option \<Rightarrow> (place_ref \<Rightarrow> Token list) \<Rightarrow>
     Token list" where
  "outputSlice rank t actionOutput consumed =
     (let o1 = (case actionOutput of None \<Rightarrow> [] | Some ts \<Rightarrow> ts) @
               concat (map consumed (sort_key rank (resourcePlaces t)));
          o2 = (case actionOutput of
                  Some ts \<Rightarrow> o1
                | None \<Rightarrow> o1 @ concat (map consumed
                            (filter (\<lambda>p. p \<notin> set (resourcePlaces t))
                               (sort_key rank (arcPlaces (InputArcs t))))))
      in o2 @ genTokens (length o2) (totalNeeded t))"

text \<open>
  \<^verbatim>\<open>Fire\<close> returns the error (\<open>None\<close> for nil) and the store it leaves; the outer \<open>None\<close>
  is a run-time panic. Locking a nil place panics before anything else happens. The locks
  themselves are not modelled: a firing holds every place it touches from its first read
  to its return, so firings are atomic with respect to each other.
\<close>

definition Fire ::
  "(place_ref \<Rightarrow> nat) \<Rightarrow> ctx \<Rightarrow> Transition \<Rightarrow> store \<Rightarrow> (error option \<times> store) option" where
  "Fire rank c t s =
     (if list_ex (\<lambda>a. aPlace a = None) (InputArcs t @ OutputArcs t) then None
      else if inputShort t s then Some (Some ErrNotReady, s)
      else if outputFull t s then Some (Some ErrNotReady, s)
      else
        (case consume (InputArcs t) s [] (\<lambda>p. []) of
           None \<Rightarrow> None
         | Some (s1, inputTokens, consumed) \<Rightarrow>
             if (case Guard t of None \<Rightarrow> False | Some g \<Rightarrow> \<not> g inputTokens)
             then Some (Some ErrNotReady,
                        restore (sort_key rank (arcPlaces (InputArcs t))) consumed s1)
             else
               (case (case Action t of
                        None \<Rightarrow> Inr None
                      | Some act \<Rightarrow>
                          (case act c inputTokens of
                             Inl e \<Rightarrow> Inl e
                           | Inr ts \<Rightarrow> Inr (Some ts))) of
                  Inl e \<Rightarrow>
                    Some (Some (ErrActionFailed (trName t) e),
                          restore (sort_key rank (arcPlaces (InputArcs t))) consumed s1)
                | Inr actionOutput \<Rightarrow>
                    (case distribute (OutputArcs t) s1
                            (outputSlice rank t actionOutput consumed) 0 of
                       None \<Rightarrow> None
                     | Some s2 \<Rightarrow> Some (None, s2)))))"

section \<open>The net and its bounded driver\<close>

text \<open>
  \<^verbatim>\<open>type PetriNet struct { Name string; Places map[string]*Place; Transitions
  map[string]*Transition }\<close>. The transitions are kept as an association list, since the
  driver iterates over them.
\<close>

record PetriNet =
  netName :: string
  Places :: "string \<rightharpoonup> place_ref"
  Transitions :: "(string \<times> Transition) list"

definition NewPetriNet :: "string \<Rightarrow> PetriNet" where
  "NewPetriNet n = \<lparr>netName = n, Places = Map.empty, Transitions = []\<rparr>"

definition AddTransition :: "Transition \<Rightarrow> PetriNet \<Rightarrow> PetriNet" where
  "AddTransition t net = net\<lparr>Transitions := AList.update (trID t) t (Transitions net)\<rparr>"

text \<open>
  What the scheduler and the run-time leave open in one call of \<^verbatim>\<open>Run\<close>, per iteration:
  whether the context is done, the order in which the goroutines of the iteration take
  effect (by ascending rank of the transition's key), the map orders inside each firing,
  and which of the errors sent to the channel is received first.
\<close>

record schedule =
  ctxDone :: "nat \<Rightarrow> ctx"
  fireOrder :: "nat \<Rightarrow> string \<Rightarrow> nat"
  placeOrder :: "nat \<Rightarrow> string \<Rightarrow> place_ref \<Rightarrow> nat"
  firstError :: "nat \<Rightarrow> nat"

text \<open>The snapshot loop: every transition whose \<^verbatim>\<open>CanFire\<close> is true.\<close>

fun fireable :: "(string \<times> Transition) list \<Rightarrow> store \<Rightarrow> (string \<times> Transition) list option" where
  "fireable [] s = Some []"
| "fireable (kt # kts) s =
     (case CanFire (snd kt) s of
        None \<Rightarrow> None
      | Some b \<Rightarrow>
          (case fireable kts s of
             None \<Rightarrow> None
           | Some fs \<Rightarrow> Some (if b then kt # fs else fs)))"

text \<open>
  One goroutine per snapshot entry: \<^verbatim>\<open>Fire\<close>, and on a non-nil error the error wrapped
  with the transition's name is sent to the channel. A panic in a goroutine ends the
  program.
\<close>

fun fireAll ::
  "(string \<Rightarrow> place_ref \<Rightarrow> nat) \<Rightarrow> ctx \<Rightarrow> (string \<times> Transition) list \<Rightarrow> store \<Rightarrow>
     (error list \<times> store) option" where
  "fireAll po c [] s = Some ([], s)"
| "fireAll po c (kt # kts) s =
     (case Fire (po (fst kt)) c (snd kt) s of
        None \<Rightarrow> None
      | Some (e, s') \<Rightarrow>
          (case fireAll po c kts s' of
             None \<Rightarrow> None
           | Some (es, s'') \<Rightarrow>
               Some ((case e of None \<Rightarrow> [] | Some x \<Rightarrow> [ErrTransition (trName (snd kt)) x]) @ es,
                     s'')))"

definition maxIterations :: nat where
  "maxIterations = 1000"

text \<open>
  \<^verbatim>\<open>Run\<close>: the loop \<^verbatim>\<open>for iterations < maxIterations\<close>. The loop over the error channel
  returns the first error it receives, whatever the error is.
\<close>

function Run_loop :: "schedule \<Rightarrow> PetriNet \<Rightarrow> nat \<Rightarrow> store \<Rightarrow> (error option \<times> store) option" where
  "Run_loop sch net iterations s =
     (if iterations < maxIterations then
        if ctxDone sch iterations then Some (Some ErrCtx, s)
        else
          (case fireable (sort_key (\<lambda>kt. fireOrder sch iterations (fst kt)) (Transitions net)) s of
             None \<Rightarrow> None
           | Some fs \<Rightarrow>
               if length fs = 0 then Some (None, s)
               else
                 (case fireAll (placeOrder sch iterations) (ctxDone sch iterations) fs s of
                    None \<Rightarrow> None
                  | Some (errs, s') \<Rightarrow>
                      if 0 < length errs
                      then Some (Some (errs ! (firstError sch iterations mod length errs)), s')
                      else Run_loop sch net (Suc iterations) s'))
      else Some (Some (ErrMaxIterations (int maxIterations)), s))"
  by pat_completeness auto
termination
  by (relation "measure (\<lambda>(sch, net, iterations, s). maxIterations - iterations)") auto

declare Run_loop.simps [simp del]

definition Run :: "schedule \<Rightarrow> PetriNet \<Rightarrow> store \<Rightarrow> (error option \<times> store) option" where
  "Run sch net s = Run_loop sch net 0 s"

section \<open>The workflow model (package workflow)\<close>

text \<open>
  The structs of \<^verbatim>\<open>types.go\<close>, in the revision that has contexts, and the validator and
  compiler that go with it. \<^verbatim>\<open>Requires map[string]int\<close> is an association list, read in
  the order the map iteration of the run at hand produced.
\<close>

record Resource =
  rID :: string
  rType :: string
  rCapacity :: int

record Context =
  cxID :: string
  cxType :: string
  cxCapacity :: int

record Channel =
  chID :: string
  chCapacity :: int
  chType :: string

record Task =
  tkID :: string
  tkType :: string
  Input :: string
  Output :: string
  Inputs :: "string list"
  Outputs :: "string list"
  Requires :: "(string \<times> int) list"
  Parallel :: bool
  tkContext :: string
  tkAction :: "(ctx \<Rightarrow> data \<Rightarrow> error + data) option"
  Config :: "(string \<times> data) list"

record Gateway =
  gID :: string
  gType :: string
  gInputs :: "string list"
  gOutputs :: "string list"
  WaitFor :: "string list"

record Workflow =
  wfName :: string
  Resources :: "Resource list"
  Contexts :: "Context list"
  Channels :: "Channel list"
  Tasks :: "Task list"
  Gateways :: "Gateway list"

subsection \<open>Validate\<close>

text \<open>
  One function per loop of \<^verbatim>\<open>Validate\<close>; each threads the identifier set the loop fills and
  stops at the first error.
\<close>

fun validateResources :: "Resource list \<Rightarrow> string set \<Rightarrow> error + string set" where
  "validateResources [] resourceIDs = Inr resourceIDs"
| "validateResources (r # rs) resourceIDs =
     (if rID r = [] then Inl (ErrMsg ''resource id cannot be empty'')
      else if rID r \<in> resourceIDs then Inl (ErrMsg (''duplicate resource id: '' @ rID r))
      else validateResources rs (insert (rID r) resourceIDs))"

fun validateChannels :: "Channel list \<Rightarrow> string set \<Rightarrow> error + string set" where
  "validateChannels [] channelIDs = Inr channelIDs"
| "validateChannels (c # cs) channelIDs =
     (if chID c = [] then Inl (ErrMsg ''channel id cannot be empty'')
      else if chID c \<in> channelIDs then Inl (ErrMsg (''duplicate channel id: '' @ chID c))
      else validateChannels cs (insert (chID c) channelIDs))"

fun validateContexts ::
  "Context list \<Rightarrow> string set \<Rightarrow> string set \<Rightarrow> string set \<Rightarrow> error + string set" where
  "validateContexts [] resourceIDs channelIDs contextIDs = Inr contextIDs"
| "validateContexts (c # cs) resourceIDs channelIDs contextIDs =
     (if cxID c = [] then Inl (ErrMsg ''context id cannot be empty'')
      else if cxID c \<in> contextIDs then Inl (ErrMsg (''duplicate context id: '' @ cxID c))
      else if cxID c \<in> resourceIDs
        then Inl (ErrMsg (''context id '' @ cxID c @ '' conflicts with resource id''))
      else if cxID c \<in> channelIDs
        then Inl (ErrMsg (''context id '' @ cxID c @ '' conflicts with channel id''))
      else validateContexts cs resourceIDs channelIDs (insert (cxID c) contextIDs))"

text \<open>The first identifier of a list that is not in a set, if any.\<close>

fun firstMissing :: "string list \<Rightarrow> string set \<Rightarrow> string option" where
  "firstMissing [] ids = None"
| "firstMissing (x # xs) ids = (if x \<in> ids then firstMissing xs ids else Some x)"

definition validateTask :: "Task \<Rightarrow> string set \<Rightarrow> string set \<Rightarrow> string set \<Rightarrow> error option" where
  "validateTask t resourceIDs channelIDs contextIDs =
     (if Input t \<noteq> [] \<and> Input t \<notin> channelIDs
      then Some (ErrMsg (''task '' @ tkID t @ '' references missing input channel '' @ Input t))
      else case firstMissing (Inputs t) channelIDs of
        Some i \<Rightarrow> Some (ErrMsg (''task '' @ tkID t @ '' references missing input channel '' @ i))
      | None \<Rightarrow>
         if Output t \<noteq> [] \<and> Output t \<notin> channelIDs
         then Some (ErrMsg (''task '' @ tkID t @ '' references missing output channel '' @ Output t))
         else case firstMissing (Outputs t) channelIDs of
           Some out \<Rightarrow>
             Some (ErrMsg (''task '' @ tkID t @ '' references missing output channel '' @ out))
         | None \<Rightarrow>
            (case firstMissing (map fst (Requires t)) resourceIDs of
               Some resID \<Rightarrow>
                 Some (ErrMsg (''task '' @ tkID t @ '' requires missing resource '' @ resID))
             | None \<Rightarrow>
                 if tkContext t \<noteq> [] \<and> tkContext t \<notin> contextIDs
                 then Some (ErrMsg (''task '' @ tkID t @ '' references missing context '' @
                                      tkContext t))
                 else None))"

fun validateTasks ::
  "Task list \<Rightarrow> string set \<Rightarrow> string set \<Rightarrow> string set \<Rightarrow> string set \<Rightarrow> error + string set" where
  "validateTasks [] resourceIDs channelIDs contextIDs taskIDs = Inr taskIDs"
| "validateTasks (t # ts) resourceIDs channelIDs contextIDs taskIDs =
     (if tkID t = [] then Inl (ErrMsg ''task id cannot be empty'')
      else if tkID t \<in> taskIDs then Inl (ErrMsg (''duplicate task id: '' @ tkID t))
      else case validateTask t resourceIDs channelIDs contextIDs of
        Some e \<Rightarrow> Inl e
      | None \<Rightarrow> validateTasks ts resourceIDs channelIDs contextIDs (insert (tkID t) taskIDs))"

fun validateWaits :: "string \<Rightarrow> string list \<Rightarrow> string set \<Rightarrow> error option" where
  "validateWaits g [] taskIDs = None"
| "validateWaits g (wait # waits) taskIDs =
     (if wait = [] then Some (ErrMsg (''gateway '' @ g @ '' has empty input/wait_for entry''))
      else if wait \<notin> taskIDs
        then Some (ErrMsg (''gateway '' @ g @ '' references missing task '' @ wait))
      else validateWaits g waits taskIDs)"

fun validateGateways :: "Gateway list \<Rightarrow> string set \<Rightarrow> string set \<Rightarrow> error option" where
  "validateGateways [] taskIDs gatewayIDs = None"
| "validateGateways (g # gs) taskIDs gatewayIDs =
     (if gID g = [] then Some (ErrMsg ''gateway id cannot be empty'')
      else if gID g \<in> gatewayIDs then Some (ErrMsg (''duplicate gateway id: '' @ gID g))
      else case validateWaits (gID g) (gInputs g @ WaitFor g) taskIDs of
        Some e \<Rightarrow> Some e
      | None \<Rightarrow> validateGateways gs taskIDs (insert (gID g) gatewayIDs))"

definition Validate :: "Workflow \<Rightarrow> error option" where
  "Validate wfl =
     (case validateResources (Resources wfl) {} of
        Inl e \<Rightarrow> Some e
      | Inr resourceIDs \<Rightarrow>
     (case validateChannels (Channels wfl) {} of
        Inl e \<Rightarrow> Some e
      | Inr channelIDs \<Rightarrow>
     (case validateContexts (Contexts wfl) resourceIDs channelIDs {} of
        Inl e \<Rightarrow> Some e
      | Inr contextIDs \<Rightarrow>
     (case validateTasks (Tasks wfl) resourceIDs channelIDs contextIDs {} of
        Inl e \<Rightarrow> Some e
      | Inr taskIDs \<Rightarrow> validateGateways (Gateways wfl) taskIDs {}))))"

subsection \<open>Compile\<close>

text \<open>
  The compiler allocates places: the state it threads is the net under construction
  together with the store of places and the next free reference.
\<close>

record build =
  net :: PetriNet
  cells :: store
  top :: place_ref

text \<open>\<^verbatim>\<open>net.AddPlace(place)\<close> for a place that was just created.\<close>

definition AddPlace :: "Place \<Rightarrow> build \<Rightarrow> build" where
  "AddPlace p b =
     b\<lparr>net := (net b)\<lparr>Places := (Places (net b))(pID p \<mapsto> top b)\<rparr>,
       cells := (cells b)(top b := p),
       top := Suc (top b)\<rparr>"

text \<open>Repeated \<^verbatim>\<open>place.AddTokens(token)\<close> with the returned error dropped.\<close>

definition seed :: "Token list \<Rightarrow> Place \<Rightarrow> Place" where
  "seed tokens p = fold (\<lambda>tk q. snd (AddTokens [tk] q)) tokens p"

definition resourcePlace :: "Resource \<Rightarrow> Place" where
  "resourcePlace r =
     seed (map (\<lambda>i. \<lparr>tID = rID r @ ''-token-'' @ itoa i, Data = DStr (rID r)\<rparr>)
             [0 ..< nat (rCapacity r)])
       (NewPlace (rID r) (rID r) (rCapacity r))"

definition contextPlace :: "Context \<Rightarrow> Place" where
  "contextPlace c =
     (if cxCapacity c \<noteq> 0
      then seed [\<lparr>tID = cxID c @ ''-token-0'', Data = DMap []\<rparr>]
             (NewPlace (cxID c) (cxID c) (cxCapacity c))
      else NewPlace (cxID c) (cxID c) (cxCapacity c))"

definition channelPlace :: "Channel \<Rightarrow> Place" where
  "channelPlace c = NewPlace (chID c) (chID c) (chCapacity c)"

text \<open>
  The action \<^verbatim>\<open>compileTask\<close> wraps around the task's own: the first non-nil payload is the
  input; the result is the tokens tagged with a required resource's identifier, followed by
  one token carrying the output unless the output is nil.
\<close>

definition taskAction :: "Task \<Rightarrow> ctx \<Rightarrow> Token list \<Rightarrow> error + Token list" where
  "taskAction task c tokens =
     (let inputData = (case filter (\<lambda>tk. Data tk \<noteq> DNil) tokens of [] \<Rightarrow> DNil | tk # _ \<Rightarrow> Data tk)
      in case (case tkAction task of None \<Rightarrow> Inr inputData | Some f \<Rightarrow> f c inputData) of
           Inl e \<Rightarrow> Inl e
         | Inr outputData \<Rightarrow>
             Inr (filter (\<lambda>tk. list_ex (\<lambda>resourceID. Data tk = DStr resourceID)
                                 (map fst (Requires task))) tokens @
                  (if outputData = DNil then []
                   else [\<lparr>tID = tkID task @ ''-output'', Data = outputData\<rparr>])))"

definition compileTask :: "Task \<Rightarrow> Transition" where
  "compileTask task = (NewTransition (tkID task) (tkID task))\<lparr>Action := Some (taskAction task)\<rparr>"

text \<open>
  The arcs of a task's transition, in the order \<^verbatim>\<open>Compile\<close> adds them. A map read of a
  missing place yields the nil pointer, which the arc then carries.
\<close>

definition resourceArcs :: "(string \<rightharpoonup> place_ref) \<Rightarrow> (string \<times> int) list \<Rightarrow> Arc list" where
  "resourceArcs places reqs =
     concat (map (\<lambda>(resourceID, amount).
                    case places resourceID of
                      None \<Rightarrow> []
                    | Some r \<Rightarrow> [\<lparr>aPlace = Some r, Weight = amount\<rparr>]) reqs)"

definition taskInputArcs :: "(string \<rightharpoonup> place_ref) \<Rightarrow> Task \<Rightarrow> Arc list" where
  "taskInputArcs places task =
     (if tkContext task \<noteq> [] then [\<lparr>aPlace = places (tkContext task), Weight = 1\<rparr>] else []) @
     (if Input task \<noteq> [] then [\<lparr>aPlace = places (Input task), Weight = 1\<rparr>] else []) @
     map (\<lambda>inputID. \<lparr>aPlace = places inputID, Weight = 1\<rparr>) (Inputs task) @
     resourceArcs places (Requires task)"

definition taskOutputArcs :: "(string \<rightharpoonup> place_ref) \<Rightarrow> Task \<Rightarrow> Arc list" where
  "taskOutputArcs places task =
     (if tkContext task \<noteq> [] then [\<lparr>aPlace = places (tkContext task), Weight = 1\<rparr>] else []) @
     resourceArcs places (Requires task) @
     (if Output task \<noteq> [] then [\<lparr>aPlace = places (Output task), Weight = 1\<rparr>] else []) @
     map (\<lambda>outputID. \<lparr>aPlace = places outputID, Weight = 1\<rparr>) (Outputs task)"

text \<open>
  Step 4 of \<^verbatim>\<open>Compile\<close> for one task. The arc lists above are what the successive
  \<^verbatim>\<open>AddInputArc\<close> and \<^verbatim>\<open>AddOutputArc\<close> calls append to the empty lists of the new
  transition. The source registers the transition first and adds
  the arcs through the pointer; here the finished transition is registered, which is the
  same net, since nothing reads the registry in between and the error return drops the net.
\<close>

definition compileTaskStep :: "Task \<Rightarrow> build \<Rightarrow> error + build" where
  "compileTaskStep task b =
     (if tkContext task \<noteq> [] \<and> Places (net b) (tkContext task) = None
      then Inl (ErrMsg (''task '' @ tkID task @ '' references missing context place '' @
                          tkContext task))
      else
        let ins = taskInputArcs (Places (net b)) task;
            outs = taskOutputArcs (Places (net b)) task;
            donePlaceID = tkID task @ ''_done'';
            b1 = (case Places (net b) donePlaceID of
                    None \<Rightarrow> AddPlace (NewPlace donePlaceID (tkID task @ '' Done'') (- 1)) b
                  | Some r \<Rightarrow> b);
            transition = (compileTask task)
              \<lparr>InputArcs := ins,
               OutputArcs := outs @ [\<lparr>aPlace = Places (net b1) donePlaceID, Weight = 1\<rparr>]\<rparr>
        in Inr (b1\<lparr>net := AddTransition transition (net b1)\<rparr>))"

fun compileTasks :: "Task list \<Rightarrow> build \<Rightarrow> error + build" where
  "compileTasks [] b = Inr b"
| "compileTasks (task # tasks) b =
     (case compileTaskStep task b of Inl e \<Rightarrow> Inl e | Inr b' \<Rightarrow> compileTasks tasks b')"

text \<open>The loop of \<^verbatim>\<open>compileGateway\<close> over the awaited tasks.\<close>

fun barrierInputs :: "string \<Rightarrow> string list \<Rightarrow> (string \<rightharpoonup> place_ref) \<Rightarrow> error + Arc list" where
  "barrierInputs g [] places = Inr []"
| "barrierInputs g (waitID # waitIDs) places =
     (case places (waitID @ ''_done'') of
        None \<Rightarrow> Inl (ErrMsg (''barrier '' @ g @ '' waits on missing completion place '' @
                               waitID @ ''_done''))
      | Some signalPlace \<Rightarrow>
          (case barrierInputs g waitIDs places of
             Inl e \<Rightarrow> Inl e
           | Inr arcs \<Rightarrow> Inr (\<lparr>aPlace = Some signalPlace, Weight = 1\<rparr> # arcs)))"

definition compileGateway :: "Gateway \<Rightarrow> build \<Rightarrow> error + build" where
  "compileGateway gateway b =
     (if gType gateway = ''barrier'' then
        let waitFor = (if length (gInputs gateway) = 0 then WaitFor gateway else gInputs gateway)
        in if length waitFor = 0 then Inr b
           else
             let b1 = AddPlace (NewPlace (gID gateway @ ''_complete'')
                                  (gID gateway @ '' Complete'') 1) b
             in case barrierInputs (gID gateway) waitFor (Places (net b1)) of
                  Inl e \<Rightarrow> Inl e
                | Inr arcs \<Rightarrow>
                    Inr (b1\<lparr>net := AddTransition
                           ((NewTransition (gID gateway) (gID gateway))
                              \<lparr>InputArcs := arcs,
                               OutputArcs := [\<lparr>aPlace = Some (top b), Weight = 1\<rparr>]\<rparr>)
                           (net b1)\<rparr>)
      else Inr b)"

fun compileGateways :: "Gateway list \<Rightarrow> build \<Rightarrow> error + build" where
  "compileGateways [] b = Inr b"
| "compileGateways (g # gs) b =
     (case compileGateway g b of Inl e \<Rightarrow> Inl e | Inr b' \<Rightarrow> compileGateways gs b')"

definition Compile :: "Workflow \<Rightarrow> error + build" where
  "Compile wfl =
     (let b0 = \<lparr>net = NewPetriNet (wfName wfl), cells = (\<lambda>r. NewPlace [] [] 0), top = 0\<rparr>;
          b1 = fold (\<lambda>resource. AddPlace (resourcePlace resource)) (Resources wfl) b0;
          b2 = fold (\<lambda>c. AddPlace (contextPlace c)) (Contexts wfl) b1;
          b3 = fold (\<lambda>channel. AddPlace (channelPlace channel)) (Channels wfl) b2
      in case compileTasks (Tasks wfl) b3 of
           Inl e \<Rightarrow> Inl e
         | Inr b4 \<Rightarrow> compileGateways (Gateways wfl) b4)"

section \<open>Notions used to state the properties\<close>

text \<open>
  A sequence of operations on a store: firings (each with its own transition, context and
  map order) and direct deposits. A panic ends the program, so the sequence has no result.
\<close>

datatype op = FireOp "place_ref \<Rightarrow> nat" ctx Transition | AddTokensOp place_ref "Token list"

fun step :: "op \<Rightarrow> store \<Rightarrow> store option" where
  "step (FireOp rank c t) s = map_option snd (Fire rank c t s)"
| "step (AddTokensOp r tokens) s = Some (snd (AddTokensAt r tokens s))"

fun steps :: "op list \<Rightarrow> store \<Rightarrow> store option" where
  "steps [] s = Some s"
| "steps (x # xs) s = (case step x s of None \<Rightarrow> None | Some s' \<Rightarrow> steps xs s')"


section \<open>Example nets and workflows\<close>

definition tok :: "string \<Rightarrow> Token" where
  "tok i = \<lparr>tID = i, Data = DNil\<rparr>"

text \<open>
  A permit place \<open>api\<close> (capacity 2, holding \<open>tA\<close> and \<open>tB\<close>), an unbounded place \<open>done\<close>
  and a place \<open>queue\<close> of capacity 1 that is full.
\<close>

definition permits :: store where
  "permits = (\<lambda>r. NewPlace [] [] (- 1))
     (0 := \<lparr>pID = ''api'', pName = ''api'', Tokens = [tok ''tA'', tok ''tB''], Capacity = 2\<rparr>,
      1 := NewPlace ''done'' ''done'' (- 1),
      2 := \<lparr>pID = ''queue'', pName = ''queue'', Tokens = [tok ''q0''], Capacity = 1\<rparr>)"

definition arc :: "place_ref \<Rightarrow> int \<Rightarrow> Arc" where
  "arc p w = \<lparr>aPlace = Some p, Weight = w\<rparr>"

text \<open>Takes one permit, gives one back and emits a result (scenario S4).\<close>

definition useApi :: Transition where
  "useApi = \<lparr>trID = ''t'', trName = ''t'', InputArcs = [arc 0 1], OutputArcs = [arc 0 1, arc 1 1],
     Guard = None, Action = Some (\<lambda>c ts. Inr [tok ''r''])\<rparr>"


definition guarded :: Transition where
  "guarded = \<lparr>trID = ''g'', trName = ''g'', InputArcs = [arc 0 1], OutputArcs = [arc 1 1],
     Guard = Some (\<lambda>ts. False), Action = None\<rparr>"

text \<open>An action that honours cancellation.\<close>

definition cancellable :: Transition where
  "cancellable = \<lparr>trID = ''c'', trName = ''c'', InputArcs = [arc 0 1], OutputArcs = [arc 1 1],
     Guard = None, Action = Some (\<lambda>c ts. if c then Inl ErrCtx else Inr ts)\<rparr>"

text \<open>A producer that keeps its permit and puts an item into the queue.\<close>

definition produce :: Transition where
  "produce = \<lparr>trID = ''produce'', trName = ''Produce Item'', InputArcs = [arc 0 1],
     OutputArcs = [arc 2 1, arc 0 1],
     Guard = None, Action = Some (\<lambda>c ts. Inr (tok ''item'' # ts))\<rparr>"

text \<open>
  The routing step of the customer-service example: one classified ticket, and two
  transitions that compete for it under complementary guards.
\<close>

definition ticket :: Token where
  "ticket = \<lparr>tID = ''T-1001'', Data = DStr ''billing''\<rparr>"

definition desk_store :: store where
  "desk_store = (\<lambda>r. NewPlace [] [] (- 1))
     (0 := \<lparr>pID = ''classified'', pName = ''Classified'', Tokens = [ticket], Capacity = - 1\<rparr>,
      1 := NewPlace ''billing_queue'' ''Billing Queue'' (- 1),
      2 := NewPlace ''tech_queue'' ''Tech Queue'' (- 1))"

definition route :: "string \<Rightarrow> string \<Rightarrow> string \<Rightarrow> place_ref \<Rightarrow> Transition" where
  "route i n intent queue = \<lparr>trID = i, trName = n,
     InputArcs = [arc 0 1], OutputArcs = [arc queue 1],
     Guard = Some (\<lambda>toks. list_all (\<lambda>tk. Data tk = DStr intent) (take 1 toks)),
     Action = Some (\<lambda>c toks. Inr (map (\<lambda>tk. tk\<lparr>tID := tID tk @ ''-routed''\<rparr>) (take 1 toks)))\<rparr>"

definition routeBilling :: Transition where
  "routeBilling = route ''route_billing'' ''Route Billing'' ''billing'' 1"

definition routeTech :: Transition where
  "routeTech = route ''route_tech'' ''Route Tech'' ''tech'' 2"

definition desk_net :: PetriNet where
  "desk_net = AddTransition routeTech (AddTransition routeBilling
     ((NewPetriNet ''Customer Service Demo'')
        \<lparr>Places := [''classified'' \<mapsto> 0, ''billing_queue'' \<mapsto> 1, ''tech_queue'' \<mapsto> 2]\<rparr>))"

definition desk_after :: store where
  "desk_after = desk_store
     (0 := (desk_store 0)\<lparr>Tokens := []\<rparr>,
      1 := (desk_store 1)\<lparr>Tokens := [ticket\<lparr>tID := ''T-1001-routed''\<rparr>]\<rparr>)"

text \<open>Workflows.\<close>

definition mkTask :: "string \<Rightarrow> Task" where
  "mkTask i = \<lparr>tkID = i, tkType = ''transform'', Input = [], Output = [], Inputs = [],
     Outputs = [], Requires = [], Parallel = False, tkContext = [], tkAction = None,
     Config = []\<rparr>"

definition barrier_g :: Gateway where
  "barrier_g = \<lparr>gID = ''g'', gType = ''barrier'', gInputs = [], gOutputs = [],
     WaitFor = [''pa'', ''pb'', ''pc'']\<rparr>"

text \<open>Scenario S5: three tasks and a barrier waiting for them.\<close>

definition s5_wf :: Workflow where
  "s5_wf = \<lparr>wfName = ''s5'', Resources = [], Contexts = [], Channels = [],
     Tasks = [mkTask ''pa'', mkTask ''pb'', mkTask ''pc''], Gateways = [barrier_g]\<rparr>"

text \<open>A resource and a channel that share the identifier \<open>x\<close>.\<close>

definition clash_wf :: Workflow where
  "clash_wf = \<lparr>wfName = ''clash'',
     Resources = [\<lparr>rID = ''x'', rType = ''semaphore'', rCapacity = 2\<rparr>], Contexts = [],
     Channels = [\<lparr>chID = ''x'', chCapacity = 5, chType = ''fifo''\<rparr>], Tasks = [], Gateways = []\<rparr>"

text \<open>A task that reads a channel under a permit and a shared context, and a barrier.\<close>

definition work :: Task where
  "work = (mkTask ''work'')\<lparr>Input := ''in'', Output := ''out'', Requires := [(''api'', 1)]\<rparr>"

definition api_wf :: Workflow where
  "api_wf = \<lparr>wfName = ''api'',
     Resources = [\<lparr>rID = ''api'', rType = ''semaphore'', rCapacity = 1\<rparr>],
     Contexts = [\<lparr>cxID = ''state'', cxType = ''context'', cxCapacity = 1\<rparr>],
     Channels = [\<lparr>chID = ''in'', chCapacity = - 1, chType = ''fifo''\<rparr>,
                 \<lparr>chID = ''out'', chCapacity = - 1, chType = ''fifo''\<rparr>],
     Tasks = [work, (mkTask ''audit'')\<lparr>tkContext := ''state''\<rparr>],
     Gateways = [\<lparr>gID = ''sync'', gType = ''barrier'', gInputs = [''work'', ''audit''],
                  gOutputs = [], WaitFor = []\<rparr>]\<rparr>"

text \<open>The net \<^verbatim>\<open>Compile\<close> builds from \<open>api_wf\<close>.\<close>

definition workT :: Transition where
  "workT = \<lparr>trID = ''work'', trName = ''work'', InputArcs = [arc 2 1, arc 0 1],
     OutputArcs = [arc 0 1, arc 3 1, arc 4 1], Guard = None, Action = Some (taskAction work)\<rparr>"

definition auditT :: Transition where
  "auditT = \<lparr>trID = ''audit'', trName = ''audit'', InputArcs = [arc 1 1],
     OutputArcs = [arc 1 1, arc 5 1], Guard = None,
     Action = Some (taskAction ((mkTask ''audit'')\<lparr>tkContext := ''state''\<rparr>))\<rparr>"

definition syncT :: Transition where
  "syncT = \<lparr>trID = ''sync'', trName = ''sync'', InputArcs = [arc 4 1, arc 5 1],
     OutputArcs = [arc 6 1], Guard = None, Action = None\<rparr>"

definition api_build :: build where
  "api_build = \<lparr>net = \<lparr>netName = ''api'',
       Places = [''api'' \<mapsto> 0, ''state'' \<mapsto> 1, ''in'' \<mapsto> 2, ''out'' \<mapsto> 3,
                 ''work_done'' \<mapsto> 4, ''audit_done'' \<mapsto> 5, ''sync_complete'' \<mapsto> 6],
       Transitions = [(''work'', workT), (''audit'', auditT), (''sync'', syncT)]\<rparr>,
     cells = (\<lambda>r. NewPlace [] [] 0)
       (0 := \<lparr>pID = ''api'', pName = ''api'',
               Tokens = [\<lparr>tID = ''api-token-0'', Data = DStr ''api''\<rparr>], Capacity = 1\<rparr>,
        1 := \<lparr>pID = ''state'', pName = ''state'',
               Tokens = [\<lparr>tID = ''state-token-0'', Data = DMap []\<rparr>], Capacity = 1\<rparr>,
        2 := \<lparr>pID = ''in'', pName = ''in'',
               Tokens = [\<lparr>tID = ''doc-0'', Data = DStr ''text''\<rparr>], Capacity = - 1\<rparr>,
        3 := NewPlace ''out'' ''out'' (- 1),
        4 := NewPlace ''work_done'' ''work Done'' (- 1),
        5 := NewPlace ''audit_done'' ''audit Done'' (- 1),
        6 := NewPlace ''sync_complete'' ''sync Complete'' 1),
     top = 7\<rparr>"

text \<open>The net of \<open>s5_wf\<close> once its tasks are compiled, and once its barrier is.\<close>

definition doneOnly :: "string \<Rightarrow> place_ref \<Rightarrow> Transition" where
  "doneOnly i r = \<lparr>trID = i, trName = i, InputArcs = [], OutputArcs = [arc r 1], Guard = None,
     Action = Some (taskAction (mkTask i))\<rparr>"

definition s5_tasks :: build where
  "s5_tasks = \<lparr>net = \<lparr>netName = ''s5'',
       Places = [''pa_done'' \<mapsto> 0, ''pb_done'' \<mapsto> 1, ''pc_done'' \<mapsto> 2],
       Transitions = [(''pa'', doneOnly ''pa'' 0), (''pb'', doneOnly ''pb'' 1),
                      (''pc'', doneOnly ''pc'' 2)]\<rparr>,
     cells = (\<lambda>r. NewPlace [] [] 0)
       (0 := NewPlace ''pa_done'' ''pa Done'' (- 1),
        1 := NewPlace ''pb_done'' ''pb Done'' (- 1),
        2 := NewPlace ''pc_done'' ''pc Done'' (- 1)),
     top = 3\<rparr>"

definition barrierT :: Transition where
  "barrierT = \<lparr>trID = ''g'', trName = ''g'', InputArcs = [arc 0 1, arc 1 1, arc 2 1],
     OutputArcs = [arc 3 1], Guard = None, Action = None\<rparr>"

definition s5_build :: build where
  "s5_build = \<lparr>net = \<lparr>netName = ''s5'',
       Places = [''pa_done'' \<mapsto> 0, ''pb_done'' \<mapsto> 1, ''pc_done'' \<mapsto> 2, ''g_complete'' \<mapsto> 3],
       Transitions = [(''pa'', doneOnly ''pa'' 0), (''pb'', doneOnly ''pb'' 1),
                      (''pc'', doneOnly ''pc'' 2), (''g'', barrierT)]\<rparr>,
     cells = (cells s5_tasks)(3 := NewPlace ''g_complete'' ''g Complete'' 1),
     top = 4\<rparr>"

section \<open>Firing: what a failed and a successful firing do to the marking\<close>

lemma sumWeights_Nil: "sumWeights [] p = 0"
  by (simp add: sumWeights_def)

lemma sumWeights_Cons:
  "sumWeights (a # arcs) p = (if aPlace a = Some p then Weight a else 0) + sumWeights arcs p"
  by (simp add: sumWeights_def)

lemma sumWeights_absent: "Some p \<notin> aPlace ` set arcs \<Longrightarrow> sumWeights arcs p = 0"
  by (induction arcs) (auto simp: sumWeights_Cons sumWeights_Nil)

lemma set_arcPlaces:
  "\<not> list_ex (\<lambda>a. aPlace a = None) arcs \<Longrightarrow>
     p \<in> set (arcPlaces arcs) \<longleftrightarrow> Some p \<in> aPlace ` set arcs"
  by (induction arcs) (auto simp: arcPlaces_def)

text \<open>What was consumed from a place, put back in front of what is left, is what was there.\<close>

lemma consume_frame:
  "consume arcs s it cons = Some (s1, it', cons') \<Longrightarrow>
     (s1 p)\<lparr>Tokens := cons' p @ Tokens (s1 p)\<rparr> = (s p)\<lparr>Tokens := cons p @ Tokens (s p)\<rparr>"
proof (induction arcs arbitrary: s it cons)
  case Nil
  then show ?case by simp
next
  case (Cons a arcs)
  then show ?case
    by (auto split: option.splits if_splits)
qed

lemma consume_untouched:
  "consume arcs s it cons = Some (s1, it', cons') \<Longrightarrow> Some p \<notin> aPlace ` set arcs \<Longrightarrow>
     cons' p = cons p"
proof (induction arcs arbitrary: s it cons)
  case Nil
  then show ?case by simp
next
  case (Cons a arcs)
  then show ?case
    by (auto split: option.splits if_splits)
qed

lemma restore_distinct:
  "distinct ps \<Longrightarrow>
   restore ps cons s =
     (\<lambda>p. if p \<in> set ps then (s p)\<lparr>Tokens := cons p @ Tokens (s p)\<rparr> else s p)"
  unfolding restore_def
proof (induction ps arbitrary: s)
  case Nil
  then show ?case by simp
next
  case (Cons a ps)
  then show ?case by (auto simp: fun_eq_iff)
qed

lemma restore_consume:
  assumes "consume arcs s [] (\<lambda>p. []) = Some (s1, it', cons')"
    and "\<not> list_ex (\<lambda>a. aPlace a = None) arcs"
  shows "restore (sort_key rank (arcPlaces arcs)) cons' s1 = s"
proof
  fix p
  have d: "distinct (sort_key rank (arcPlaces arcs))"
    by (simp add: arcPlaces_def)
  have f: "(s1 p)\<lparr>Tokens := cons' p @ Tokens (s1 p)\<rparr> = s p"
    using consume_frame [OF assms(1), of p] by simp
  show "restore (sort_key rank (arcPlaces arcs)) cons' s1 p = s p"
  proof (cases "p \<in> set (arcPlaces arcs)")
    case True
    then show ?thesis using f by (simp add: restore_distinct [OF d])
  next
    case False
    then have "Some p \<notin> aPlace ` set arcs"
      using set_arcPlaces [OF assms(2)] by simp
    from consume_untouched [OF assms(1) this] have "cons' p = []" by simp
    with f have "s1 p = s p" by simp
    with False show ?thesis by (simp add: restore_distinct [OF d])
  qed
qed

lemma Fire_error_restores: "Fire rank c t s = Some (Some e, s') \<Longrightarrow> s' = s"
  unfolding Fire_def
  by (auto split: if_splits option.splits sum.splits prod.splits simp: restore_consume)

text \<open>Token counts: consuming takes the input sum away, distributing adds the output sum.\<close>

lemma consume_count:
  "consume arcs s it cons = Some (s1, it', cons') \<Longrightarrow>
     int (length (Tokens (s1 p))) = int (length (Tokens (s p))) - sumWeights arcs p \<and>
     Capacity (s1 p) = Capacity (s p) \<and> 0 \<le> sumWeights arcs p"
proof (induction arcs arbitrary: s it cons)
  case Nil
  then show ?case by (simp add: sumWeights_Nil)
next
  case (Cons a arcs)
  then show ?case
    by (fastforce simp: sumWeights_Cons split: option.splits if_splits)
qed

lemma distribute_count:
  "distribute arcs s out off = Some s2 \<Longrightarrow>
     int (length (Tokens (s2 p))) = int (length (Tokens (s p))) + sumWeights arcs p \<and>
     Capacity (s2 p) = Capacity (s p) \<and> 0 \<le> sumWeights arcs p"
proof (induction arcs arbitrary: s off)
  case Nil
  then show ?case by (simp add: sumWeights_Nil)
next
  case (Cons a arcs)
  then show ?case
    by (fastforce simp: sumWeights_Cons split: option.splits if_splits)
qed

lemma Fire_success_count:
  assumes "Fire rank c t s = Some (None, s2)"
  shows "int (length (Tokens (s2 p))) =
           int (length (Tokens (s p))) - sumWeights (InputArcs t) p + sumWeights (OutputArcs t) p"
    and "Capacity (s2 p) = Capacity (s p)"
    and "0 \<le> sumWeights (InputArcs t) p"
  using assms unfolding Fire_def
  by (auto split: if_splits option.splits sum.splits prod.splits
           dest!: consume_count [where p = p] distribute_count [where p = p])

lemma Fire_success_checks:
  assumes "Fire rank c t s = Some (None, s2)"
  shows "\<not> list_ex (\<lambda>a. aPlace a = None) (InputArcs t @ OutputArcs t)" and "\<not> outputFull t s"
  using assms unfolding Fire_def
  by (auto split: if_splits)


text \<open>Evaluating the model on the examples.\<close>

lemmas fire_eval =
  Fire_def inputShort_def outputFull_def overflows_def arcPlaces_def sumWeights_def
  outputSlice_def resourcePlaces_def totalNeeded_def genTokens_def NewPlace_def restore_def
  arc_def tok_def



lemma useApi_fires:
  "Fire rank c useApi permits =
     Some (None, permits(0 := (permits 0)\<lparr>Tokens := [tok ''tB'', tok ''r'']\<rparr>,
                         1 := (permits 1)\<lparr>Tokens := [tok ''tA'']\<rparr>))"
  by (simp add: fire_eval useApi_def permits_def fun_eq_iff)

text \<open>
  \<^bold>\<open>C3.\<close> A firing that fails leaves the marking as it was: whenever \<^verbatim>\<open>Fire\<close> returns an
  error, the store it leaves is the store it started from, so every place holds the same
  tokens in the same order. When the guard rejects the consumed tokens the error is
  \<open>ErrNotReady\<close>; when the action fails (cancellation included) it is the action's error
  wrapped with the transition's name.
\<close>

theorem Fire_failure_restores_marking:
  "(Fire rank c t s = Some (Some e, s') \<longrightarrow> s' = s) \<and>
   (\<not> list_ex (\<lambda>a. aPlace a = None) (InputArcs t @ OutputArcs t) \<and>
    \<not> inputShort t s \<and> \<not> outputFull t s \<and>
    consume (InputArcs t) s [] (\<lambda>p. []) = Some (s1, toks, cons) \<and>
    Guard t = Some g \<and> \<not> g toks \<longrightarrow>
      Fire rank c t s = Some (Some ErrNotReady, s)) \<and>
   (\<not> list_ex (\<lambda>a. aPlace a = None) (InputArcs t @ OutputArcs t) \<and>
    \<not> inputShort t s \<and> \<not> outputFull t s \<and>
    consume (InputArcs t) s [] (\<lambda>p. []) = Some (s1, toks, cons) \<and>
    (case Guard t of None \<Rightarrow> True | Some g' \<Rightarrow> g' toks) \<and>
    Action t = Some act \<and> act c toks = Inl err \<longrightarrow>
      Fire rank c t s = Some (Some (ErrActionFailed (trName t) err), s))"
proof (intro conjI impI)
  assume "Fire rank c t s = Some (Some e, s')"
  then show "s' = s" by (rule Fire_error_restores)
next
  assume h: "\<not> list_ex (\<lambda>a. aPlace a = None) (InputArcs t @ OutputArcs t) \<and>
    \<not> inputShort t s \<and> \<not> outputFull t s \<and>
    consume (InputArcs t) s [] (\<lambda>p. []) = Some (s1, toks, cons) \<and>
    Guard t = Some g \<and> \<not> g toks"
  then have "restore (sort_key rank (arcPlaces (InputArcs t))) cons s1 = s"
    by (intro restore_consume [of _ _ _ toks]) auto
  with h show "Fire rank c t s = Some (Some ErrNotReady, s)"
    by (simp add: Fire_def)
next
  assume h: "\<not> list_ex (\<lambda>a. aPlace a = None) (InputArcs t @ OutputArcs t) \<and>
    \<not> inputShort t s \<and> \<not> outputFull t s \<and>
    consume (InputArcs t) s [] (\<lambda>p. []) = Some (s1, toks, cons) \<and>
    (case Guard t of None \<Rightarrow> True | Some g' \<Rightarrow> g' toks) \<and>
    Action t = Some act \<and> act c toks = Inl err"
  then have "restore (sort_key rank (arcPlaces (InputArcs t))) cons s1 = s"
    by (intro restore_consume [of _ _ _ toks]) auto
  with h show "Fire rank c t s = Some (Some (ErrActionFailed (trName t) err), s)"
    by (auto simp: Fire_def split: option.splits)
qed

theorem Fire_failure_restores_marking_witness:
  "Fire (\<lambda>p. 0) False guarded permits = Some (Some ErrNotReady, permits) \<and>
   Fire (\<lambda>p. 0) True cancellable permits = Some (Some (ErrActionFailed ''c'' ErrCtx), permits) \<and>
   Tokens (permits 0) = [tok ''tA'', tok ''tB'']"
proof -
  have g: "consume (InputArcs guarded) permits [] (\<lambda>p. []) =
             Some (permits(0 := (permits 0)\<lparr>Tokens := [tok ''tB'']\<rparr>), [tok ''tA''],
                   (\<lambda>p. [])(0 := [tok ''tA'']))"
    by (simp add: guarded_def arc_def permits_def)
  have k: "consume (InputArcs cancellable) permits [] (\<lambda>p. []) =
             Some (permits(0 := (permits 0)\<lparr>Tokens := [tok ''tB'']\<rparr>), [tok ''tA''],
                   (\<lambda>p. [])(0 := [tok ''tA'']))"
    by (simp add: cancellable_def arc_def permits_def)
  have hg: "\<not> list_ex (\<lambda>a. aPlace a = None) (InputArcs guarded @ OutputArcs guarded)"
    "\<not> inputShort guarded permits" "\<not> outputFull guarded permits"
    "Guard guarded = Some (\<lambda>ts. False)"
    by (simp_all add: guarded_def fire_eval permits_def)
  have hk: "\<not> list_ex (\<lambda>a. aPlace a = None) (InputArcs cancellable @ OutputArcs cancellable)"
    "\<not> inputShort cancellable permits" "\<not> outputFull cancellable permits"
    "Guard cancellable = None"
    "Action cancellable = Some (\<lambda>c ts. if c then Inl ErrCtx else Inr ts)"
    "trName cancellable = ''c''"
    by (simp_all add: cancellable_def fire_eval permits_def)
  have 1: "Fire (\<lambda>p. 0) False guarded permits = Some (Some ErrNotReady, permits)"
    using Fire_failure_restores_marking
      [of "\<lambda>p. 0" False guarded permits _ _ _ "[tok ''tA'']" _ "\<lambda>ts. False"] g hg
    by simp
  have 2: "Fire (\<lambda>p. 0) True cancellable permits =
             Some (Some (ErrActionFailed ''c'' ErrCtx), permits)"
    using Fire_failure_restores_marking
      [of "\<lambda>p. 0" True cancellable permits _ _ _ "[tok ''tA'']" _ _
          "\<lambda>c ts. if c then Inl ErrCtx else Inr ts" ErrCtx] k hk
    by simp
  from 1 2 show ?thesis by (simp add: permits_def)
qed



text \<open>One operation keeps a place within its capacity, and keeps the capacity.\<close>

lemma Fire_keeps:
  assumes "Fire rank c t s = Some (e, s')" and "int (length (Tokens (s p))) \<le> Capacity (s p)"
  shows "Capacity (s' p) = Capacity (s p) \<and> int (length (Tokens (s' p))) \<le> Capacity (s' p)"
proof (cases e)
  case (Some err)
  with assms show ?thesis using Fire_error_restores by blast
next
  case None
  with assms have ok: "Fire rank c t s = Some (None, s')" by simp
  note cnt = Fire_success_count [OF ok, of p]
  note chk = Fire_success_checks [OF ok]
  show ?thesis
  proof (cases "p \<in> set (arcPlaces (OutputArcs t))")
    case True
    with chk(2) have "\<not> overflows t s p"
      by (auto simp: outputFull_def list_ex_iff)
    with assms(2) cnt show ?thesis by (auto simp: overflows_def)
  next
    case False
    with chk(1) have "Some p \<notin> aPlace ` set (OutputArcs t)"
      using set_arcPlaces [of "OutputArcs t" p] by (auto simp: list_ex_iff)
    then have "sumWeights (OutputArcs t) p = 0" by (rule sumWeights_absent)
    with assms(2) cnt show ?thesis by simp
  qed
qed

lemma AddTokensAt_keeps:
  assumes "AddTokensAt r tokens s = (e, s')" and "int (length (Tokens (s p))) \<le> Capacity (s p)"
  shows "Capacity (s' p) = Capacity (s p) \<and> int (length (Tokens (s' p))) \<le> Capacity (s' p)"
  using assms by (auto simp: AddTokensAt_def AddTokens_def split: if_splits)

lemma step_keeps:
  assumes "step x s = Some s'" and "int (length (Tokens (s p))) \<le> Capacity (s p)"
  shows "Capacity (s' p) = Capacity (s p) \<and> int (length (Tokens (s' p))) \<le> Capacity (s' p)"
proof (cases x)
  case (FireOp rank c t)
  with assms(1) obtain e where "Fire rank c t s = Some (e, s')" by auto
  from Fire_keeps [OF this assms(2)] show ?thesis .
next
  case (AddTokensOp r tokens)
  with assms(1) have "AddTokensAt r tokens s = (fst (AddTokensAt r tokens s), s')" by auto
  from AddTokensAt_keeps [OF this assms(2)] show ?thesis .
qed

text \<open>
  \<^bold>\<open>C6.\<close> A bounded place that starts within its capacity stays within it, with its
  capacity unchanged, after any sequence of firings and direct deposits that runs to its
  end; a place of capacity 0 that starts empty holds no token afterwards.
\<close>

theorem capacity_invariant:
  "steps xs s = Some s' \<Longrightarrow> int (length (Tokens (s p))) \<le> Capacity (s p) \<Longrightarrow>
     Capacity (s' p) = Capacity (s p) \<and> int (length (Tokens (s' p))) \<le> Capacity (s' p) \<and>
     (Capacity (s p) = 0 \<longrightarrow> Tokens (s' p) = [])"
proof (induction xs arbitrary: s)
  case Nil
  then show ?case by auto
next
  case (Cons x xs)
  from Cons.prems(1) obtain s1 where s1: "step x s = Some s1" and r: "steps xs s1 = Some s'"
    by (auto split: option.splits)
  from step_keeps [OF s1 Cons.prems(2)] have k: "Capacity (s1 p) = Capacity (s p)"
    "int (length (Tokens (s1 p))) \<le> Capacity (s1 p)" by auto
  from Cons.IH [OF r k(2)] k(1) show ?case by auto
qed

theorem capacity_invariant_witness:
  "\<exists>s'. steps [AddTokensOp 0 [tok ''extra''], FireOp (\<lambda>p. 0) False useApi,
               AddTokensOp 2 [tok ''q1''], FireOp (\<lambda>p. 0) False produce] permits = Some s' \<and>
        map tID (Tokens (s' 0)) = [''tB'', ''r''] \<and>
        Capacity (s' 0) = 2 \<and> int (length (Tokens (s' 0))) \<le> Capacity (s' 0) \<and>
        int (length (Tokens (permits 0))) \<le> Capacity (permits 0)"
proof -
  let ?s1 = "permits(0 := (permits 0)\<lparr>Tokens := [tok ''tB'', tok ''r'']\<rparr>,
                      1 := (permits 1)\<lparr>Tokens := [tok ''tA'']\<rparr>)"
  have a0: "AddTokensAt 0 [tok ''extra''] permits = (Some (ErrAtCapacity ''api'' 2), permits)"
    by (simp add: AddTokensAt_def AddTokens_def permits_def fun_eq_iff)
  have a2: "AddTokensAt 2 [tok ''q1''] ?s1 = (Some (ErrAtCapacity ''queue'' 1), ?s1)"
    by (simp add: AddTokensAt_def AddTokens_def permits_def fun_eq_iff)
  have f2: "Fire (\<lambda>p. 0) False produce ?s1 = Some (Some ErrNotReady, ?s1)"
    by (simp add: fire_eval produce_def permits_def)
  have run: "steps [AddTokensOp 0 [tok ''extra''], FireOp (\<lambda>p. 0) False useApi,
               AddTokensOp 2 [tok ''q1''], FireOp (\<lambda>p. 0) False produce] permits = Some ?s1"
  proof -
    have 1: "step (AddTokensOp 0 [tok ''extra'']) permits = Some permits"
      by (simp only: step.simps a0 snd_conv)
    have 2: "step (FireOp (\<lambda>p. 0) False useApi) permits = Some ?s1"
      by (simp only: step.simps useApi_fires option.map snd_conv)
    have 3: "step (AddTokensOp 2 [tok ''q1'']) ?s1 = Some ?s1"
      by (simp only: step.simps a2 snd_conv)
    have 4: "step (FireOp (\<lambda>p. 0) False produce) ?s1 = Some ?s1"
      by (simp only: step.simps f2 option.map snd_conv)
    show ?thesis
      by (simp only: steps.simps 1 2 3 4 option.case)
  qed
  have init: "int (length (Tokens (permits 0))) \<le> Capacity (permits 0)"
    by (simp add: permits_def)
  from capacity_invariant [OF run init] run init show ?thesis
    by (intro exI [of _ ?s1]) (simp add: permits_def tok_def)
qed

section \<open>Firing: the output tokens\<close>












text \<open>Arcs added one by one end up in the transition's lists in the order they were added.\<close>

lemma AddInputArc_fold:
  "InputArcs (fold (\<lambda>a. AddInputArc (aPlace a) (Weight a)) arcs t) = InputArcs t @ arcs"
  by (induction arcs arbitrary: t) (simp_all add: AddInputArc_def)

lemma AddOutputArc_fold:
  "OutputArcs (fold (\<lambda>a. AddOutputArc (aPlace a) (Weight a)) arcs t) = OutputArcs t @ arcs"
  by (induction arcs arbitrary: t) (simp_all add: AddOutputArc_def)

text \<open>Evaluating \<^verbatim>\<open>Compile\<close> on the examples.\<close>

lemmas compile_eval =
  Compile_def Let_def AddPlace_def resourcePlace_def contextPlace_def channelPlace_def seed_def
  AddTokens_def NewPlace_def NewPetriNet_def compileTaskStep_def compileTask_def NewTransition_def
  taskInputArcs_def taskOutputArcs_def resourceArcs_def AddTransition_def compileGateway_def
  mkTask_def

lemma Compile_api_wf:
  "Compile api_wf =
     Inr (api_build\<lparr>cells := (cells api_build)(2 := NewPlace ''in'' ''in'' (- 1))\<rparr>)"
  by (simp add: api_wf_def work_def compile_eval api_build_def workT_def auditT_def syncT_def
        itoa.simps arc_def fun_eq_iff upt_rec)

text \<open>
  \<^bold>\<open>C4\<close> does not hold of the code. The consumed tokens of a pass-through place are
  appended after the action's tokens and the slice is handed out by position, in output-arc
  order. In scenario S4 the permit \<open>tA\<close> taken from \<open>api\<close> ends in \<open>done\<close> and the action's
  result \<open>r\<close> takes its place in \<open>api\<close>. In the net compiled from \<open>api_wf\<close> (with one
  document deposited in the channel \<open>in\<close>), the task \<open>work\<close> returns its permit to \<open>api\<close> and
  puts the same permit into \<open>work_done\<close> as well, and the task \<open>audit\<close> leaves its own output
  token in the context place and moves the context token to \<open>audit_done\<close>.
\<close>

theorem resource_tokens_misrouted:
  "Fire rank c useApi permits =
     Some (None, permits(0 := (permits 0)\<lparr>Tokens := [tok ''tB'', tok ''r'']\<rparr>,
                         1 := (permits 1)\<lparr>Tokens := [tok ''tA'']\<rparr>)) \<and>
   Compile api_wf =
     Inr (api_build\<lparr>cells := (cells api_build)(2 := NewPlace ''in'' ''in'' (- 1))\<rparr>) \<and>
   Fire rank c workT (cells api_build) =
     Some (None, (cells api_build)
        (0 := (cells api_build 0)\<lparr>Tokens := [\<lparr>tID = ''api-token-0'', Data = DStr ''api''\<rparr>]\<rparr>,
         2 := (cells api_build 2)\<lparr>Tokens := []\<rparr>,
         3 := (cells api_build 3)\<lparr>Tokens := [\<lparr>tID = ''work-output'', Data = DStr ''text''\<rparr>]\<rparr>,
         4 := (cells api_build 4)\<lparr>Tokens := [\<lparr>tID = ''api-token-0'', Data = DStr ''api''\<rparr>]\<rparr>)) \<and>
   Fire rank c auditT (cells api_build) =
     Some (None, (cells api_build)
        (1 := (cells api_build 1)\<lparr>Tokens := [\<lparr>tID = ''audit-output'', Data = DMap []\<rparr>]\<rparr>,
         5 := (cells api_build 5)\<lparr>Tokens := [\<lparr>tID = ''state-token-0'', Data = DMap []\<rparr>]\<rparr>))"
proof -
  have w: "Fire rank c workT (cells api_build) =
     Some (None, (cells api_build)
        (0 := (cells api_build 0)\<lparr>Tokens := [\<lparr>tID = ''api-token-0'', Data = DStr ''api''\<rparr>]\<rparr>,
         2 := (cells api_build 2)\<lparr>Tokens := []\<rparr>,
         3 := (cells api_build 3)\<lparr>Tokens := [\<lparr>tID = ''work-output'', Data = DStr ''text''\<rparr>]\<rparr>,
         4 := (cells api_build 4)\<lparr>Tokens := [\<lparr>tID = ''api-token-0'', Data = DStr ''api''\<rparr>]\<rparr>))"
    by (simp add: fire_eval workT_def api_build_def taskAction_def work_def mkTask_def fun_eq_iff)
  have a: "Fire rank c auditT (cells api_build) =
     Some (None, (cells api_build)
        (1 := (cells api_build 1)\<lparr>Tokens := [\<lparr>tID = ''audit-output'', Data = DMap []\<rparr>]\<rparr>,
         5 := (cells api_build 5)\<lparr>Tokens := [\<lparr>tID = ''state-token-0'', Data = DMap []\<rparr>]\<rparr>))"
    by (simp add: fire_eval auditT_def api_build_def taskAction_def mkTask_def fun_eq_iff)
  from useApi_fires Compile_api_wf w a show ?thesis by blast
qed

section \<open>Enabled-set discovery\<close>





section \<open>The bounded driver\<close>

lemma route_names:
  "trID routeBilling = ''route_billing''" "trID routeTech = ''route_tech''"
  "trName routeTech = ''Route Tech''"
  by (simp_all add: routeBilling_def routeTech_def route_def)

lemma routes_can_fire:
  "CanFire routeBilling desk_store = Some True" "CanFire routeTech desk_store = Some True"
  by (simp_all add: CanFire_def routeBilling_def routeTech_def route_def arc_def desk_store_def
        TokenCount_def)

lemma routeTech_first: "Fire rank c routeTech desk_store = Some (Some ErrNotReady, desk_store)"
  by (simp add: fire_eval routeTech_def route_def desk_store_def ticket_def fun_eq_iff)

lemma routeBilling_fires: "Fire rank c routeBilling desk_store = Some (None, desk_after)"
  by (simp add: fire_eval routeBilling_def route_def desk_store_def desk_after_def ticket_def
        fun_eq_iff)

lemma routeTech_second: "Fire rank c routeTech desk_after = Some (Some ErrNotReady, desk_after)"
  by (simp add: fire_eval routeTech_def route_def desk_store_def desk_after_def ticket_def
        fun_eq_iff)

text \<open>
  \<^bold>\<open>C1\<close> does not hold of the code. \<^verbatim>\<open>Run\<close> returns the first error it reads from the
  channel, and \<open>ErrNotReady\<close> is sent to the channel like any other error. With one billing
  ticket classified, both routing transitions are in the snapshot; whichever order the
  goroutines take effect in, the billing route fires, the tech route returns \<open>ErrNotReady\<close>
  (its guard rejects the ticket, or the ticket is gone), and the run ends with that error in
  its first iteration.
\<close>

theorem Run_aborts_on_NotReady:
  "Run (sch\<lparr>ctxDone := \<lambda>i. False\<rparr>) desk_net desk_store =
     Some (Some (ErrTransition ''Route Tech'' ErrNotReady), desk_after)"
  unfolding Run_def
  by (subst Run_loop.simps)
     (simp add: maxIterations_def desk_net_def AddTransition_def NewPetriNet_def route_names
        routes_can_fire routeTech_first routeBilling_fires routeTech_second)

section \<open>Validation and compilation\<close>

text \<open>
  \<^bold>\<open>C7\<close> does not hold of the code. \<^verbatim>\<open>Validate\<close> compares a context identifier with the
  resources and the channels, but never a channel identifier with the resources: a workflow
  whose resource and channel are both called \<open>x\<close> is accepted. \<^verbatim>\<open>Compile\<close> then registers
  the channel's place under \<open>x\<close> in place of the resource's.
\<close>

theorem Validate_accepts_resource_channel_clash:
  "Validate clash_wf = None \<and>
   set (map rID (Resources clash_wf)) \<inter> set (map chID (Channels clash_wf)) = {''x''} \<and>
   (case Compile clash_wf of
      Inl e \<Rightarrow> False
    | Inr b \<Rightarrow> Places (net b) ''x'' = Some 1 \<and> cells b 1 = NewPlace ''x'' ''x'' 5)"
  by (simp add: Validate_def clash_wf_def compile_eval)

lemma done_not_complete: "w @ ''_done'' \<noteq> g @ ''_complete''"
proof
  assume "w @ ''_done'' = g @ ''_complete''"
  then have "rev (w @ ''_done'') = rev (g @ ''_complete'')" by simp
  then show False by simp
qed

lemma barrierInputs_ok:
  "\<forall>w\<in>set ws. w @ ''_done'' \<in> dom places \<Longrightarrow>
     barrierInputs g ws places =
       Inr (map (\<lambda>w. \<lparr>aPlace = places (w @ ''_done''), Weight = 1\<rparr>) ws)"
  by (induction ws) auto

lemma barrierInputs_found:
  "barrierInputs g ws places = Inr arcs \<Longrightarrow> \<forall>w\<in>set ws. places (w @ ''_done'') \<noteq> None"
  by (induction ws arbitrary: arcs) (auto split: option.splits sum.splits)

lemma barrierInputs_missing:
  assumes "\<exists>w\<in>set ws. places (w @ ''_done'') = None"
  shows "\<exists>e. barrierInputs g ws places = Inl e"
proof (cases "barrierInputs g ws places")
  case (Inl e)
  then show ?thesis by blast
next
  case (Inr arcs)
  from barrierInputs_found [OF this] assms show ?thesis by blast
qed

text \<open>
  \<^bold>\<open>C8.\<close> For a barrier gateway whose referenced list (\<open>inputs\<close>, or \<open>wait_for\<close> when
  \<open>inputs\<close> is empty) is not empty: if every referenced task has its \<open>_done\<close> place in the
  net, the gateway's step of \<^verbatim>\<open>Compile\<close> adds exactly one place, \<open><id>_complete\<close> of
  capacity 1 and empty, and registers under the gateway's identifier one transition, without
  guard or action, whose input arcs are one arc of weight 1 from each referenced task's
  \<open>_done\<close> place, in the order of the list, and whose only output arc has weight 1 and leads
  to the new place; nothing else in the net changes, and \<^verbatim>\<open>Compile\<close> goes on to the
  remaining gateways with this net. If a referenced \<open>_done\<close> place is missing, the step
  returns an error, which \<^verbatim>\<open>Compile\<close> returns.
\<close>

theorem compileGateway_barrier:
  assumes "gType g = ''barrier''"
    and "waitFor = (if gInputs g = [] then WaitFor g else gInputs g)"
    and "waitFor \<noteq> []"
    and "b' = b\<lparr>net := (net b)
                  \<lparr>Places := (Places (net b))(gID g @ ''_complete'' \<mapsto> top b),
                   Transitions := AList.update (gID g)
                     \<lparr>trID = gID g, trName = gID g,
                      InputArcs = map (\<lambda>w. \<lparr>aPlace = Places (net b) (w @ ''_done''),
                                             Weight = 1\<rparr>) waitFor,
                      OutputArcs = [\<lparr>aPlace = Some (top b), Weight = 1\<rparr>],
                      Guard = None, Action = None\<rparr>
                     (Transitions (net b))\<rparr>,
                 cells := (cells b)(top b :=
                     \<lparr>pID = gID g @ ''_complete'', pName = gID g @ '' Complete'',
                      Tokens = [], Capacity = 1\<rparr>),
                 top := Suc (top b)\<rparr>"
  shows "((\<forall>w\<in>set waitFor. Places (net b) (w @ ''_done'') \<noteq> None) \<longrightarrow>
           compileGateway g b = Inr b' \<and>
           compileGateways (g # gs) b = compileGateways gs b') \<and>
         ((\<exists>w\<in>set waitFor. Places (net b) (w @ ''_done'') = None) \<longrightarrow>
           (\<exists>e. compileGateway g b = Inl e \<and> compileGateways (g # gs) b = Inl e))"
proof (intro conjI impI)
  let ?b1 = "AddPlace (NewPlace (gID g @ ''_complete'') (gID g @ '' Complete'') 1) b"
  have pl: "Places (net ?b1) (w @ ''_done'') = Places (net b) (w @ ''_done'')" for w
    by (simp add: AddPlace_def NewPlace_def done_not_complete)
  {
    assume "\<forall>w\<in>set waitFor. Places (net b) (w @ ''_done'') \<noteq> None"
    then have "\<forall>w\<in>set waitFor. w @ ''_done'' \<in> dom (Places (net ?b1))"
      by (auto simp: pl)
    from barrierInputs_ok [OF this, of "gID g"]
    have "barrierInputs (gID g) waitFor (Places (net ?b1)) =
            Inr (map (\<lambda>w. \<lparr>aPlace = Places (net b) (w @ ''_done''), Weight = 1\<rparr>) waitFor)"
      by (simp add: pl)
    with assms show r: "compileGateway g b = Inr b'"
      by (simp add: compileGateway_def Let_def AddPlace_def NewPlace_def AddTransition_def
            NewTransition_def)
    then show "compileGateways (g # gs) b = compileGateways gs b'"
      by simp
  }
  {
    assume "\<exists>w\<in>set waitFor. Places (net b) (w @ ''_done'') = None"
    then have "\<exists>w\<in>set waitFor. Places (net ?b1) (w @ ''_done'') = None"
      by (simp add: pl)
    from barrierInputs_missing [OF this, of "gID g"] obtain e where
      "barrierInputs (gID g) waitFor (Places (net ?b1)) = Inl e" by blast
    with assms have "compileGateway g b = Inl e"
      by (simp add: compileGateway_def Let_def)
    then show "\<exists>e. compileGateway g b = Inl e \<and> compileGateways (g # gs) b = Inl e"
      by simp
  }
qed

theorem compileGateway_barrier_witness:
  "compileGateway barrier_g s5_tasks = Inr s5_build \<and>
   Compile s5_wf = Inr s5_build \<and>
   map_of (Transitions (net s5_build)) ''g'' = Some barrierT \<and>
   map (Places (net s5_build)) [''pa_done'', ''pb_done'', ''pc_done'', ''g_complete''] =
     [Some 0, Some 1, Some 2, Some 3] \<and>
   cells s5_build 3 = NewPlace ''g_complete'' ''g Complete'' 1"
proof -
  have h: "gType barrier_g = ''barrier''"
    "[''pa'', ''pb'', ''pc''] = (if gInputs barrier_g = [] then WaitFor barrier_g else gInputs barrier_g)"
    "[''pa'', ''pb'', ''pc''] \<noteq> []"
    by (simp_all add: barrier_g_def)
  have d: "\<forall>w\<in>set [''pa'', ''pb'', ''pc'']. Places (net s5_tasks) (w @ ''_done'') \<noteq> None"
    by (simp add: s5_tasks_def)
  have e: "s5_build = s5_tasks\<lparr>net := (net s5_tasks)
                  \<lparr>Places := (Places (net s5_tasks))(gID barrier_g @ ''_complete'' \<mapsto> top s5_tasks),
                   Transitions := AList.update (gID barrier_g)
                     \<lparr>trID = gID barrier_g, trName = gID barrier_g,
                      InputArcs = map (\<lambda>w. \<lparr>aPlace = Places (net s5_tasks) (w @ ''_done''),
                                             Weight = 1\<rparr>) [''pa'', ''pb'', ''pc''],
                      OutputArcs = [\<lparr>aPlace = Some (top s5_tasks), Weight = 1\<rparr>],
                      Guard = None, Action = None\<rparr>
                     (Transitions (net s5_tasks))\<rparr>,
                 cells := (cells s5_tasks)(top s5_tasks :=
                     \<lparr>pID = gID barrier_g @ ''_complete'', pName = gID barrier_g @ '' Complete'',
                      Tokens = [], Capacity = 1\<rparr>),
                 top := Suc (top s5_tasks)\<rparr>"
    by (simp add: s5_tasks_def s5_build_def barrier_g_def barrierT_def arc_def NewPlace_def
          fun_eq_iff)
  from compileGateway_barrier [OF h e, of "[]"] d
  have "compileGateway barrier_g s5_tasks = Inr s5_build"
    by blast
  moreover have "compileTasks (Tasks s5_wf)
      \<lparr>net = NewPetriNet (wfName s5_wf), cells = (\<lambda>r. NewPlace [] [] 0), top = 0\<rparr> = Inr s5_tasks"
    by (simp add: s5_wf_def compile_eval s5_tasks_def doneOnly_def arc_def fun_eq_iff)
  ultimately have "Compile s5_wf = Inr s5_build"
    by (simp add: Compile_def s5_wf_def)
  with \<open>compileGateway barrier_g s5_tasks = Inr s5_build\<close> show ?thesis
    by (simp add: s5_build_def)
qed















end
